theory Spec2Isabelle
  imports Complex_Main "HOL-Library.AList"
begin

section \<open>Python values shared by both systems\<close>

text \<open>
  Numbers are modelled as \<^typ>\<open>real\<close>: the sources compare, order and average Python
  floats; the model keeps the order and the arithmetic and leaves rounding and NaN out.
  Exceptions are values of \<open>error\<close>; a function that can raise returns \<open>error + 'a\<close>.
\<close>

datatype error =
    RuntimeError string
  | ValueError
  | IndexError
  | KeyError string
  | AttributeError
  | Raised string

text \<open>
  Python's \<open>min(xs)\<close> and \<open>max(xs)\<close> on a non-empty list: start from the first element
  and replace the candidate only by a strictly smaller (larger) later element.
\<close>

fun py_min_from :: "real \<Rightarrow> real list \<Rightarrow> real" where
  "py_min_from m [] = m"
| "py_min_from m (x # xs) = py_min_from (if x < m then x else m) xs"

fun py_max_from :: "real \<Rightarrow> real list \<Rightarrow> real" where
  "py_max_from m [] = m"
| "py_max_from m (x # xs) = py_max_from (if m < x then x else m) xs"

definition py_min :: "real list \<Rightarrow> error + real" where
  "py_min xs = (case xs of [] \<Rightarrow> Inl ValueError | x # r \<Rightarrow> Inr (py_min_from x r))"

definition py_max :: "real list \<Rightarrow> error + real" where
  "py_max xs = (case xs of [] \<Rightarrow> Inl ValueError | x # r \<Rightarrow> Inr (py_max_from x r))"

text \<open>\<open>int(x)\<close> on a float truncates toward zero.\<close>

definition py_int :: "real \<Rightarrow> int" where
  "py_int x = (if 0 \<le> x then \<lfloor>x\<rfloor> else \<lceil>x\<rceil>)"

text \<open>\<open>str(n)\<close> on an int: decimal digits, most significant first, \<open>-\<close> before a negative.\<close>

definition digit_char :: "nat \<Rightarrow> char" where
  "digit_char d = char_of (48 + d)"

function str_nat :: "nat \<Rightarrow> string" where
  "str_nat n = (if n < 10 then [digit_char n] else str_nat (n div 10) @ [digit_char (n mod 10)])"
  by pat_completeness auto
termination
  by (relation "measure id") auto

declare str_nat.simps [simp del]

definition str_int :: "int \<Rightarrow> string" where
  "str_int i = (if i < 0 then CHR ''-'' # str_nat (nat (- i)) else str_nat (nat i))"

text \<open>A path is its list of components; \<open>os.path.join\<close> appends one.\<close>

type_synonym path = "string list"

section \<open>Spall fracture system: the velocity sweep\<close>

text \<open>
  The two dictionaries \<open>run_analysis\<close> appends to \<open>analysis_results\<close>: the one
  \<open>_extract_results\<close> builds (status \<open>completed\<close>) and the one of the \<open>except\<close> branch
  (status \<open>failed\<close>, with \<open>error = str(e)\<close>).
\<close>

datatype run_outcome =
    Completed (velocity: real) (max_stress: real) (max_strain: real)
              (fracture_time: real) (fracture_occurred: bool) (job_name: string)
  | Failed (velocity: real) (error_message: string)

fun status :: "run_outcome \<Rightarrow> string" where
  "status (Completed v s n t f j) = ''completed''"
| "status (Failed v m) = ''failed''"

datatype param = Num real | Names "string list"

text \<open>
  What the sweep takes from outside, per iteration \<open>i\<close> (counted from 1 as
  \<open>enumerate(velocities, 1)\<close> does):
  \<^item> \<open>abaqus_available\<close>: the flag \<open>ABAQUS_AVAILABLE\<close>;
  \<open>timestamp\<close>: \<open>datetime.now().strftime(...)\<close>;
  \<^item> \<open>solver_error\<close>: the message of the exception raised by
  \<open>_create_model_for_velocity\<close> or \<open>_run_calculation\<close>, if any;
  \<^item> \<open>samples\<close>: the three \<open>np.random.uniform\<close> draws of \<open>_extract_results\<close>;
  \<^item> \<open>save_error\<close>: the exception raised inside \<open>_save_velocity_results\<close>, if any,
  with its message: by \<open>os.makedirs\<close> or \<open>open\<close>, before the file is opened for
  writing, or by \<open>json.dump\<close>, while the opened file is being written;
  \<^item> \<open>report_error\<close>: the same for writing \<open>summary_report.txt\<close>.
\<close>

datatype save_failure = BeforeOpen string | WhileWriting string

fun failure_message :: "save_failure \<Rightarrow> string" where
  "failure_message (BeforeOpen msg) = msg"
| "failure_message (WhileWriting msg) = msg"

record env =
  abaqus_available :: bool
  timestamp :: string
  solver_error :: "nat \<Rightarrow> real \<Rightarrow> string option"
  samples :: "nat \<Rightarrow> real \<times> real \<times> real"
  save_error :: "nat \<Rightarrow> run_outcome \<Rightarrow> save_failure option"
  report_error :: "string option"

record spall_system =
  work_dir :: path
  results_dir :: path

record spall_results =
  velocities :: "real list"
  results :: "run_outcome list"
  output_dir :: path
  analysis_params :: "(string \<times> param) list"

text \<open>
  The state the loop of \<open>run_analysis\<close> works on: the list \<open>analysis_results\<close> and the
  files written so far. \<open>files\<close> maps the path of each \<open>results.json\<close> to what the file
  holds: the dictionary dumped into it, or \<open>Truncated\<close> when the file was opened for
  writing and the dump did not finish. Opening a path for writing again discards what
  it held.
\<close>

datatype file_content = Document run_outcome | Truncated

record sweep_state =
  analysis_results :: "run_outcome list"
  files :: "path \<rightharpoonup> file_content"

definition default_params :: "(string \<times> param) list" where
  "default_params =
     [(''time_period'', Num 0.0003),
      (''element_size'', Num 0.0005),
      (''contact_friction'', Num 0.1),
      (''symmetry_planes'', Names [''X'', ''Z'']),
      (''output_frequency'', Num 100)]"

text \<open>\<open>dict.update\<close>: each key of the argument is stored, in the argument's order.\<close>

definition dict_update :: "('k \<times> 'v) list \<Rightarrow> ('k \<times> 'v) list \<Rightarrow> ('k \<times> 'v) list" where
  "dict_update d other = fold (\<lambda>(k, v). AList.update k v) other d"

definition job_name_of :: "real \<Rightarrow> string" where
  "job_name_of v = ''SpallJob_v'' @ str_int (py_int v)"

definition extract_results :: "env \<Rightarrow> nat \<Rightarrow> real \<Rightarrow> string \<Rightarrow> run_outcome" where
  "extract_results e i v jn =
     (case samples e i of (s, n, t) \<Rightarrow> Completed v s n t (200 < v) jn)"

definition velocity_dir :: "path \<Rightarrow> real \<Rightarrow> path" where
  "velocity_dir od v = od @ [''velocity_'' @ str_int (py_int v)]"

definition result_file :: "path \<Rightarrow> real \<Rightarrow> path" where
  "result_file od v = velocity_dir od v @ [''results.json'']"

text \<open>
  \<open>_save_velocity_results\<close>: \<open>os.makedirs\<close>, then \<open>open(result_file, 'w')\<close>, which
  empties the file, then \<open>json.dump\<close>. The result is the message of the exception
  raised, if any, and the files afterwards: unchanged when the exception came before
  the file was opened, and with an incomplete \<open>results.json\<close> when \<open>json.dump\<close> raised.
\<close>

definition save_velocity_results ::
  "env \<Rightarrow> nat \<Rightarrow> real \<Rightarrow> run_outcome \<Rightarrow> path \<Rightarrow> (path \<rightharpoonup> file_content) \<Rightarrow>
     string option \<times> (path \<rightharpoonup> file_content)" where
  "save_velocity_results e i v r od fs =
     (case save_error e i r of
        None \<Rightarrow> (None, fs(result_file od v \<mapsto> Document r))
      | Some (BeforeOpen msg) \<Rightarrow> (Some msg, fs)
      | Some (WhileWriting msg) \<Rightarrow> (Some msg, fs(result_file od v \<mapsto> Truncated)))"

text \<open>
  One iteration of the loop of \<open>run_analysis\<close>. Inside the \<open>try\<close>, the result is appended
  before it is saved; the \<open>except\<close> branch appends a failed dictionary for whatever was
  raised anywhere in the \<open>try\<close>.
\<close>

definition run_velocity :: "env \<Rightarrow> path \<Rightarrow> nat \<Rightarrow> real \<Rightarrow> sweep_state \<Rightarrow> sweep_state" where
  "run_velocity e od i v s =
     (case solver_error e i v of
        Some msg \<Rightarrow> s\<lparr>analysis_results := analysis_results s @ [Failed v msg]\<rparr>
      | None \<Rightarrow>
          (let r = extract_results e i v (job_name_of v);
               s1 = s\<lparr>analysis_results := analysis_results s @ [r]\<rparr>
           in case save_velocity_results e i v r od (files s1) of
                (None, fs) \<Rightarrow> s1\<lparr>files := fs\<rparr>
              | (Some msg, fs) \<Rightarrow>
                  s1\<lparr>analysis_results := analysis_results s1 @ [Failed v msg], files := fs\<rparr>))"

fun sweep :: "env \<Rightarrow> path \<Rightarrow> nat \<Rightarrow> real list \<Rightarrow> sweep_state \<Rightarrow> sweep_state" where
  "sweep e od i [] s = s"
| "sweep e od i (v # vs) s = sweep e od (Suc i) vs (run_velocity e od i v s)"

text \<open>
  \<open>_generate_summary_report\<close> evaluates \<open>min(results.velocities)\<close>, which raises
  \<open>ValueError\<close> on an empty list; the text of the report is not modelled.
\<close>

definition generate_summary_report :: "env \<Rightarrow> spall_results \<Rightarrow> error + unit" where
  "generate_summary_report e res =
     (case report_error e of
        Some msg \<Rightarrow> Inl (Raised msg)
      | None \<Rightarrow>
          (case py_min (velocities res) of
             Inl err \<Rightarrow> Inl err
           | Inr lo \<Rightarrow> (case py_max (velocities res) of Inl err \<Rightarrow> Inl err | Inr hi \<Rightarrow> Inr ())))"

definition run_analysis ::
  "spall_system \<Rightarrow> env \<Rightarrow> real list \<Rightarrow> path option \<Rightarrow> (string \<times> param) list option \<Rightarrow>
     (path \<rightharpoonup> file_content) \<Rightarrow> error + (spall_results \<times> (path \<rightharpoonup> file_content))" where
  "run_analysis sys e vs output_dir_arg params_arg fs =
     (if \<not> abaqus_available e then Inl (RuntimeError ''Abaqus API unavailable'')
      else
        let params = (case params_arg of None \<Rightarrow> default_params
                      | Some p \<Rightarrow> dict_update default_params p);
            od = (case output_dir_arg of
                    None \<Rightarrow> results_dir sys @ [''spall_analysis_'' @ timestamp e]
                  | Some d \<Rightarrow> d);
            s = sweep e od 1 vs \<lparr>analysis_results = [], files = fs\<rparr>;
            res = \<lparr>velocities = vs, results = analysis_results s,
                   output_dir = od, analysis_params = params\<rparr>
        in case generate_summary_report e res of
             Inl err \<Rightarrow> Inl err
           | Inr u \<Rightarrow> Inr (res, files s))"

section \<open>Spall fracture system: the threshold analysis\<close>

text \<open>
  \<open>analyze\<close> returns one of two dictionaries: \<open>{"error": ...}\<close> alone, or the seven-key
  analysis. The message of the first is Russian in the source (``no successful results
  to analyse''); it is kept here in Latin transliteration.
\<close>

record summary =
  total_velocities :: int
  successful_calculations :: int
  failed_calculations :: int
  critical_velocity :: "real option"
  fracture_velocities :: "real list"
  no_fracture_velocities :: "real list"
  max_stress_range :: "real \<times> real"

datatype analysis = ErrorOnly string | Analysis summary

definition no_results_message :: string where
  "no_results_message = ''Net uspeshnykh rezultatov dlya analiza''"

text \<open>
  \<open>min\<close> and \<open>max\<close> where the source has already tested that the list is not empty.
\<close>

definition min_of :: "real list \<Rightarrow> real" where
  "min_of xs = py_min_from (hd xs) (tl xs)"

definition max_of :: "real list \<Rightarrow> real" where
  "max_of xs = py_max_from (hd xs) (tl xs)"

definition analyze :: "spall_results \<Rightarrow> analysis" where
  "analyze res =
     (let successful_results = filter (\<lambda>r. status r = ''completed'') (results res)
      in if successful_results = [] then ErrorOnly no_results_message
         else
           let fvs = map velocity (filter fracture_occurred successful_results);
               nfvs = map velocity (filter (\<lambda>r. \<not> fracture_occurred r) successful_results);
               cv = (if fvs \<noteq> [] then Some (min_of fvs) else None)
           in Analysis
                \<lparr>total_velocities = int (length (velocities res)),
                 successful_calculations = int (length successful_results),
                 failed_calculations =
                   int (length (results res)) - int (length successful_results),
                 critical_velocity = cv,
                 fracture_velocities = fvs,
                 no_fracture_velocities = nfvs,
                 max_stress_range =
                   (min_of (map max_stress successful_results),
                    max_of (map max_stress successful_results))\<rparr>)"

text \<open>\<open>analysis.get(key)\<close>: the value stored under a key of the returned dictionary.\<close>

fun get_critical_velocity :: "analysis \<Rightarrow> real option" where
  "get_critical_velocity (ErrorOnly m) = None"
| "get_critical_velocity (Analysis a) = critical_velocity a"

fun get_total_velocities :: "analysis \<Rightarrow> int option" where
  "get_total_velocities (ErrorOnly m) = None"
| "get_total_velocities (Analysis a) = Some (total_velocities a)"

fun get_successful_calculations :: "analysis \<Rightarrow> int option" where
  "get_successful_calculations (ErrorOnly m) = None"
| "get_successful_calculations (Analysis a) = Some (successful_calculations a)"

fun get_failed_calculations :: "analysis \<Rightarrow> int option" where
  "get_failed_calculations (ErrorOnly m) = None"
| "get_failed_calculations (Analysis a) = Some (failed_calculations a)"

fun get_error :: "analysis \<Rightarrow> string option" where
  "get_error (ErrorOnly m) = Some m"
| "get_error (Analysis a) = None"

text \<open>The records the claims speak of.\<close>

definition completed :: "run_outcome list \<Rightarrow> run_outcome list" where
  "completed rs = filter (\<lambda>r. status r = ''completed'') rs"

definition fracture_set :: "run_outcome list \<Rightarrow> real list" where
  "fracture_set rs = map velocity (filter fracture_occurred (completed rs))"

text \<open>Example inputs: the sweep of \<open>main\<close>, and the environments the examples run in.\<close>

definition quiet_env :: env where
  "quiet_env =
     \<lparr>abaqus_available = True, timestamp = ''20250101_000000'',
      solver_error = (\<lambda>i v. None), samples = (\<lambda>i. (100, 0.02, 120)),
      save_error = (\<lambda>i r. None), report_error = None\<rparr>"

text \<open>
  In \<open>failing_save_env\<close> every save fails in \<open>os.makedirs\<close>; in \<open>interrupted_dump_env\<close>
  every save fails in \<open>json.dump\<close>, after the file was opened.
\<close>

definition failing_save_env :: env where
  "failing_save_env =
     quiet_env\<lparr>save_error := (\<lambda>i r. Some (BeforeOpen ''No space left on device''))\<rparr>"


definition demo_system :: spall_system where
  "demo_system = \<lparr>work_dir = [''work''], results_dir = [''work'', ''results'']\<rparr>"

definition demo_results :: spall_results where
  "demo_results =
     \<lparr>velocities = [100, 150, 200, 250, 300],
      results = [Completed 100 80 0.02 120 False ''SpallJob_v100'',
                 Failed 150 ''mesh generation error'',
                 Completed 200 90 0.03 110 False ''SpallJob_v200'',
                 Completed 250 120 0.04 90 True ''SpallJob_v250'',
                 Completed 300 140 0.05 60 True ''SpallJob_v300''],
      output_dir = [''results''],
      analysis_params = default_params\<rparr>"

text \<open>What \<open>run_analysis\<close> returns for the velocities 100 and 250 when nothing fails.\<close>

definition swept :: spall_results where
  "swept = \<lparr>velocities = [100, 250],
            results = [Completed 100 100 0.02 120 False ''SpallJob_v100'',
                       Completed 250 100 0.02 120 True ''SpallJob_v250''],
            output_dir = [''out''], analysis_params = default_params\<rparr>"

section \<open>Post-processing system: the raw output database\<close>

text \<open>
  The part of the output database the extraction reads. A repository or dictionary is an
  association list in insertion order; \<open>map_of\<close> is the lookup by key.
  \<^item> \<open>field_value\<close>: one element of \<open>field_output.values\<close>; \<open>data\<close> is searched with
  \<open>in\<close> and indexed by component name;
  \<^item> \<open>field_output\<close>: \<open>field_values\<close> is the sequence \<open>field_output.values\<close>;
  \<^item> \<open>history_point\<close>: one element of \<open>history_output.data\<close>, read as \<open>.time\<close> and
  \<open>.data\<close>.
\<close>

record field_value =
  data :: "(string \<times> real) list"

record field_output =
  field_values :: "field_value list"

record frame =
  fieldOutputs :: "(string \<times> field_output) list"
  frameValue :: real

record history_point =
  point_time :: real
  point_data :: real

record history_output =
  history_points :: "history_point list"

record history_region =
  historyOutputs :: "(string \<times> history_output) list"

record odb_step =
  frames :: "frame list"
  historyRegions :: "(string \<times> history_region) list"

record odb =
  steps :: "(string \<times> odb_step) list"

text \<open>The two keys of the configuration the extraction reads.\<close>

record config =
  field_outputs :: "(string \<times> string list) list"
  history_outputs :: "(string \<times> string) list"

record postprocessing_system =
  system_config :: config
  system_output_dir :: path

section \<open>Post-processing system: the extracted data\<close>

text \<open>
  The dictionary stored per component (\<open>values\<close>, \<open>max\<close>, \<open>min\<close>, \<open>mean\<close>), the one stored per
  history channel (the same with \<open>times\<close>), and the entries of a frame's dictionary: a
  dictionary of components under each field type, and the frame value under \<open>time\<close>.
\<close>

record sample =
  sample_values :: "real list"
  sample_max :: real
  sample_min :: real
  sample_mean :: real

record history_series =
  series_times :: "real list"
  series_values :: "real list"
  series_max :: real
  series_min :: real
  series_mean :: real

datatype frame_entry = Components "(string \<times> sample) list" | Time real

type_synonym frame_data = "(string \<times> frame_entry) list"

type_synonym field_data = "(string \<times> (real \<times> frame_data) list) list"

type_synonym history_data = "(string \<times> (string \<times> history_series) list) list"

text \<open>
  \<open>np.mean\<close> is numpy's and no part of the repository: the extraction takes it as the
  parameter \<open>np_mean\<close>, a function from a non-empty list of numbers to a number, and the
  properties below hold for every such function (a mean that overflows to infinity is
  outside the model, as every non-finite number is).
\<close>

type_synonym mean_fn = "real list \<Rightarrow> real"

text \<open>
  The three expressions both extractions compute from \<open>values\<close>:
  \<open>max(values) if values else 0\<close>, \<open>min(values) if values else 0\<close>,
  \<open>np.mean(values) if values else 0\<close>.
\<close>

definition reduceSamples :: "mean_fn \<Rightarrow> real list \<Rightarrow> real \<times> real \<times> real" where
  "reduceSamples np_mean vs =
     (if vs \<noteq> [] then max_of vs else 0,
      if vs \<noteq> [] then min_of vs else 0,
      if vs \<noteq> [] then np_mean vs else 0)"

definition make_sample :: "mean_fn \<Rightarrow> real list \<Rightarrow> sample" where
  "make_sample np_mean vs =
     (case reduceSamples np_mean vs of (mx, mn, avg) \<Rightarrow>
        \<lparr>sample_values = vs, sample_max = mx, sample_min = mn, sample_mean = avg\<rparr>)"

definition make_series :: "mean_fn \<Rightarrow> real list \<Rightarrow> real list \<Rightarrow> history_series" where
  "make_series np_mean ts vs =
     (case reduceSamples np_mean vs of (mx, mn, avg) \<Rightarrow>
        \<lparr>series_times = ts, series_values = vs,
         series_max = mx, series_min = mn, series_mean = avg\<rparr>)"

text \<open>
  Two mean functions. \<open>arithmetic_mean\<close> is the mean without rounding: the sum divided by
  the number of elements; it is what \<open>np.mean\<close> returns on a list such as \<open>[1, 2]\<close>, whose
  sum and mean are doubles. \<open>double_mean\<close> is the mean in double precision where
  the values, the partial sums and the mean stay in the normal range of doubles (no
  overflow, no subnormal number): the elements are added from left to right and the sum
  is divided by their number, each result rounded to the nearest number with a 53-bit
  significand, ties to the even significand. \<open>normalise\<close> scales a positive number
  into \<open>[2^52, 2^53)\<close> by halving or doubling, counting the steps.
\<close>

definition arithmetic_mean :: mean_fn where
  "arithmetic_mean xs = sum_list xs / real (length xs)"





section \<open>Post-processing system: field extraction\<close>

text \<open>
  \<open>[value.data[component] for value in field_output.values]\<close>: the first value whose
  \<open>data\<close> lacks the component raises \<open>KeyError\<close>.
\<close>

fun component_values :: "string \<Rightarrow> field_value list \<Rightarrow> error + real list" where
  "component_values c [] = Inr []"
| "component_values c (v # vs) =
     (case map_of (data v) c of
        None \<Rightarrow> Inl (KeyError c)
      | Some x \<Rightarrow>
          (case component_values c vs of
             Inl err \<Rightarrow> Inl err
           | Inr xs \<Rightarrow> Inr (x # xs)))"

text \<open>
  The loop over the requested components of one field. The test reads
  \<open>field_output.values[0]\<close>, which raises \<open>IndexError\<close> on an empty sequence.
\<close>

fun extract_components ::
  "mean_fn \<Rightarrow> field_output \<Rightarrow> string list \<Rightarrow> (string \<times> sample) list \<Rightarrow> error + (string \<times> sample) list" where
  "extract_components np_mean fo [] acc = Inr acc"
| "extract_components np_mean fo (c # cs) acc =
     (case field_values fo of
        [] \<Rightarrow> Inl IndexError
      | v0 # rest \<Rightarrow>
          if c \<in> fst ` set (data v0) then
            (case component_values c (field_values fo) of
               Inl err \<Rightarrow> Inl err
             | Inr vs \<Rightarrow>
                 extract_components np_mean fo cs (AList.update c (make_sample np_mean vs) acc))
          else extract_components np_mean fo cs acc)"

text \<open>The loop over the items of \<open>config["field_outputs"]\<close> for one frame.\<close>

fun extract_fields ::
  "mean_fn \<Rightarrow> frame \<Rightarrow> (string \<times> string list) list \<Rightarrow> frame_data \<Rightarrow> error + frame_data" where
  "extract_fields np_mean fr [] acc = Inr acc"
| "extract_fields np_mean fr ((field_type, components) # others) acc =
     (case map_of (fieldOutputs fr) field_type of
        None \<Rightarrow> extract_fields np_mean fr others acc
      | Some fo \<Rightarrow>
          (case extract_components np_mean fo components [] of
             Inl err \<Rightarrow> Inl err
           | Inr cd \<Rightarrow>
               extract_fields np_mean fr others (AList.update field_type (Components cd) acc)))"

definition extract_frame :: "mean_fn \<Rightarrow> config \<Rightarrow> frame \<Rightarrow> error + frame_data" where
  "extract_frame np_mean cfg fr =
     (case extract_fields np_mean fr (field_outputs cfg) [] of
        Inl err \<Rightarrow> Inl err
      | Inr fd \<Rightarrow> Inr (AList.update ''time'' (Time (frameValue fr)) fd))"

fun extract_frames ::
  "mean_fn \<Rightarrow> config \<Rightarrow> frame list \<Rightarrow> (real \<times> frame_data) list \<Rightarrow> error + (real \<times> frame_data) list" where
  "extract_frames np_mean cfg [] acc = Inr acc"
| "extract_frames np_mean cfg (fr # frs) acc =
     (case extract_frame np_mean cfg fr of
        Inl err \<Rightarrow> Inl err
      | Inr fd \<Rightarrow> extract_frames np_mean cfg frs (AList.update (frameValue fr) fd acc))"

text \<open>The loop over \<open>odb.steps.keys()\<close>; each step is looked up by its name.\<close>

fun extract_field_steps ::
  "mean_fn \<Rightarrow> config \<Rightarrow> odb \<Rightarrow> string list \<Rightarrow> field_data \<Rightarrow> error + field_data" where
  "extract_field_steps np_mean cfg db [] acc = Inr acc"
| "extract_field_steps np_mean cfg db (step_name # names) acc =
     (case map_of (steps db) step_name of
        None \<Rightarrow> Inl (KeyError step_name)
      | Some step \<Rightarrow>
          (case extract_frames np_mean cfg (frames step) [] of
             Inl err \<Rightarrow> Inl err
           | Inr sd \<Rightarrow>
               extract_field_steps np_mean cfg db names (AList.update step_name sd acc)))"

text \<open>
  \<open>_extract_field_data(self, odb)\<close>: the method receives the system object and leaves it
  as it was; the pair returned is the method's result and the object after the call.
\<close>

definition extract_field_data ::
  "mean_fn \<Rightarrow> odb \<Rightarrow> postprocessing_system \<Rightarrow> (error + field_data) \<times> postprocessing_system" where
  "extract_field_data np_mean db self =
     (extract_field_steps np_mean (system_config self) db (map fst (steps db)) [], self)"

section \<open>Post-processing system: history extraction\<close>

fun extract_history_channels ::
  "mean_fn \<Rightarrow> odb_step \<Rightarrow> (string \<times> string) list \<Rightarrow> (string \<times> history_series) list \<Rightarrow>
     (string \<times> history_series) list" where
  "extract_history_channels np_mean step [] acc = acc"
| "extract_history_channels np_mean step ((history_name, output_name) # others) acc =
     (case map_of (historyRegions step) history_name of
        None \<Rightarrow> extract_history_channels np_mean step others acc
      | Some history_region \<Rightarrow>
          (case map_of (historyOutputs history_region) output_name of
             None \<Rightarrow> extract_history_channels np_mean step others acc
           | Some history_output \<Rightarrow>
               extract_history_channels np_mean step others
                 (AList.update history_name
                    (make_series np_mean (map point_time (history_points history_output))
                                 (map point_data (history_points history_output)))
                    acc)))"

fun extract_history_steps ::
  "mean_fn \<Rightarrow> config \<Rightarrow> odb \<Rightarrow> string list \<Rightarrow> history_data \<Rightarrow> error + history_data" where
  "extract_history_steps np_mean cfg db [] acc = Inr acc"
| "extract_history_steps np_mean cfg db (step_name # names) acc =
     (case map_of (steps db) step_name of
        None \<Rightarrow> Inl (KeyError step_name)
      | Some step \<Rightarrow>
          extract_history_steps np_mean cfg db names
            (AList.update step_name
               (extract_history_channels np_mean step (history_outputs cfg) []) acc))"

definition extract_history_data ::
  "mean_fn \<Rightarrow> odb \<Rightarrow> postprocessing_system \<Rightarrow> (error + history_data) \<times> postprocessing_system" where
  "extract_history_data np_mean db self =
     (extract_history_steps np_mean (system_config self) db (map fst (steps db)) [], self)"

section \<open>Post-processing system: the summary statistics\<close>

record postprocessing_results =
  odb_file :: string
  field_data :: field_data
  history_data :: history_data
  processing_time :: real

text \<open>Python's \<open>max(a, b)\<close>: \<open>b\<close> replaces \<open>a\<close> only when it is strictly greater.\<close>

definition py_max2 :: "real \<Rightarrow> real \<Rightarrow> real" where
  "py_max2 a b = (if a < b then b else a)"

text \<open>
  \<open>get_max_stress\<close> and \<open>get_max_strain\<close> differ in the key only. The running maximum
  starts at 0. Every component dictionary of the model has the key \<open>max\<close>, so the test
  \<open>isinstance(component_data, dict) and 'max' in component_data\<close> holds for each; calling
  \<open>.values()\<close> on the float stored under \<open>time\<close> would raise \<open>AttributeError\<close>.
\<close>

fun max_over_components :: "real \<Rightarrow> (string \<times> sample) list \<Rightarrow> real" where
  "max_over_components m [] = m"
| "max_over_components m ((component, component_data) # others) =
     max_over_components (py_max2 m (sample_max component_data)) others"

fun max_over_frames :: "string \<Rightarrow> real \<Rightarrow> (real \<times> frame_data) list \<Rightarrow> error + real" where
  "max_over_frames key m [] = Inr m"
| "max_over_frames key m ((t, frame_data) # others) =
     (if frame_data \<noteq> [] \<and> key \<in> fst ` set frame_data then
        (case map_of frame_data key of
           Some (Components cd) \<Rightarrow> max_over_frames key (max_over_components m cd) others
         | Some (Time x) \<Rightarrow> Inl AttributeError
         | None \<Rightarrow> Inl (KeyError key))
      else max_over_frames key m others)"

fun max_over_steps :: "string \<Rightarrow> real \<Rightarrow> field_data \<Rightarrow> error + real" where
  "max_over_steps key m [] = Inr m"
| "max_over_steps key m ((step_name, step_data) # others) =
     (case max_over_frames key m step_data of
        Inl err \<Rightarrow> Inl err
      | Inr m' \<Rightarrow> max_over_steps key m' others)"

definition get_max_stress :: "postprocessing_results \<Rightarrow> error + real" where
  "get_max_stress res = max_over_steps ''stress'' 0 (field_data res)"

definition get_max_strain :: "postprocessing_results \<Rightarrow> error + real" where
  "get_max_strain res = max_over_steps ''strain'' 0 (field_data res)"

record summary_statistics =
  num_steps :: int
  stat_max_stress :: real
  stat_max_strain :: real
  total_frames :: int
  stat_processing_time :: real

definition get_summary_statistics :: "postprocessing_results \<Rightarrow> error + summary_statistics" where
  "get_summary_statistics res =
     (case get_max_stress res of
        Inl err \<Rightarrow> Inl err
      | Inr s \<Rightarrow>
          (case get_max_strain res of
             Inl err \<Rightarrow> Inl err
           | Inr n \<Rightarrow>
               Inr \<lparr>num_steps = int (length (field_data res)),
                    stat_max_stress = s,
                    stat_max_strain = n,
                    total_frames = (\<Sum>(step_name, step_data) \<leftarrow> field_data res.
                                      int (length step_data)),
                    stat_processing_time = processing_time res\<rparr>))"

text \<open>
  The maxima the aggregation is about: \<open>sample_max\<close> of every component stored under a
  key in any frame of any step.
\<close>

definition field_maxima :: "string \<Rightarrow> field_data \<Rightarrow> real list" where
  "field_maxima key fd =
     concat (map (\<lambda>(step_name, step_data).
       concat (map (\<lambda>(t, frame_data).
         (case map_of frame_data key of
            Some (Components cd) \<Rightarrow> map (\<lambda>(c, smp). sample_max smp) cd
          | Some (Time x) \<Rightarrow> []
          | None \<Rightarrow> [])) step_data)) fd)"

text \<open>
  Example inputs: a database whose only stress component is compressive (negative) in
  every value, one whose stress field has no values, and a system that asks for the
  component \<open>S11\<close> of the stress field and for the kinetic energy.
\<close>

definition compressed_frame :: frame where
  "compressed_frame =
     \<lparr>fieldOutputs =
        [(''stress'', \<lparr>field_values = [\<lparr>data = [(''S11'', - 5)]\<rparr>,
                                       \<lparr>data = [(''S11'', - 7)]\<rparr>]\<rparr>)],
      frameValue = 0\<rparr>"

definition compressed_db :: odb where
  "compressed_db =
     \<lparr>steps = [(''Step-1'',
        \<lparr>frames = [compressed_frame],
         historyRegions =
           [(''kinetic_energy'',
             \<lparr>historyOutputs =
                [(''KE'', \<lparr>history_points = [\<lparr>point_time = 0, point_data = 1\<rparr>,
                                             \<lparr>point_time = 1, point_data = 3\<rparr>]\<rparr>)]\<rparr>)]\<rparr>)]\<rparr>"

definition empty_values_frame :: frame where
  "empty_values_frame =
     \<lparr>fieldOutputs = [(''stress'', \<lparr>field_values = []\<rparr>)], frameValue = 0\<rparr>"

definition empty_values_db :: odb where
  "empty_values_db =
     \<lparr>steps = [(''Step-1'', \<lparr>frames = [empty_values_frame], historyRegions = []\<rparr>)]\<rparr>"

text \<open>
  A frame whose strain values do not all carry \<open>E11\<close> and whose stress field has no
  values; a frame whose second stress value carries one component more than the first.
\<close>

definition mixed_frame :: frame where
  "mixed_frame =
     \<lparr>fieldOutputs =
        [(''strain'', \<lparr>field_values = [\<lparr>data = [(''E11'', 1)]\<rparr>, \<lparr>data = [(''E22'', 2)]\<rparr>]\<rparr>),
         (''stress'', \<lparr>field_values = []\<rparr>)],
      frameValue = 0\<rparr>"

definition growing_frame :: frame where
  "growing_frame =
     \<lparr>fieldOutputs =
        [(''stress'', \<lparr>field_values = [\<lparr>data = [(''S11'', 1)]\<rparr>,
                                       \<lparr>data = [(''S11'', 2), (''S22'', 3)]\<rparr>]\<rparr>)],
      frameValue = 0\<rparr>"

definition stress_system :: postprocessing_system where
  "stress_system =
     \<lparr>system_config = \<lparr>field_outputs = [(''stress'', [''S11''])],
                        history_outputs = [(''kinetic_energy'', ''KE'')]\<rparr>,
      system_output_dir = [''results'', ''postprocessing'']\<rparr>"

section \<open>Properties of the sweep and of the threshold analysis\<close>

lemma py_min_from_fold: "py_min_from m xs = fold min xs m"
  by (induction xs arbitrary: m) (simp_all add: min_def)

lemma py_min_from_Min: "py_min_from m xs = Min (set (m # xs))"
  by (simp only: py_min_from_fold Min.set_eq_fold)



lemma min_of_Min: "xs \<noteq> [] \<Longrightarrow> min_of xs = Min (set xs)"
  by (cases xs) (simp_all add: min_of_def py_min_from_Min del: set_simps)


lemma fracture_set_Nil_if: "completed rs = [] \<Longrightarrow> fracture_set rs = []"
  by (simp add: fracture_set_def)

lemma get_critical_velocity_analyze:
  "get_critical_velocity (analyze res) =
     (if fracture_set (results res) \<noteq> [] then Some (min_of (fracture_set (results res))) else None)"
proof (cases "completed (results res) = []")
  case True
  then show ?thesis
    using fracture_set_Nil_if[OF True] by (simp add: analyze_def completed_def)
next
  case False
  then show ?thesis
    by (simp add: analyze_def completed_def fracture_set_def Let_def)
qed

lemma fracture_set_subset: "set (fracture_set rs) \<subseteq> velocity ` set rs"
  by (auto simp: fracture_set_def completed_def)

lemma run_velocity_results:
  "analysis_results (run_velocity e od i v s) =
     analysis_results s @
       (case solver_error e i v of
          Some msg \<Rightarrow> [Failed v msg]
        | None \<Rightarrow>
            (case save_error e i (extract_results e i v (job_name_of v)) of
               None \<Rightarrow> [extract_results e i v (job_name_of v)]
             | Some f \<Rightarrow>
                 [extract_results e i v (job_name_of v), Failed v (failure_message f)]))"
  by (simp add: run_velocity_def save_velocity_results_def Let_def
      split: option.splits save_failure.splits)

lemma velocity_extract_results [simp]: "velocity (extract_results e i v jn) = v"
  by (simp add: extract_results_def split: prod.splits)

lemma status_extract_results [simp]: "status (extract_results e i v jn) = ''completed''"
  by (simp add: extract_results_def split: prod.splits)

lemma sweep_velocities_subset:
  "velocity ` set (analysis_results (sweep e od i vs s)) \<subseteq>
     velocity ` set (analysis_results s) \<union> set vs"
proof (induction vs arbitrary: i s)
  case Nil
  show ?case by simp
next
  case (Cons v vs)
  have "velocity ` set (analysis_results (run_velocity e od i v s)) \<subseteq>
          velocity ` set (analysis_results s) \<union> {v}"
    by (auto simp: run_velocity_results split: option.splits)
  then show ?case using Cons.IH[of "Suc i" "run_velocity e od i v s"]
    unfolding sweep.simps list.set by blast
qed

lemma run_analysis_results:
  "run_analysis sys e vs oda pa fs = Inr (res, fs') \<Longrightarrow>
     \<exists>od. velocities res = vs \<and>
          results res = analysis_results (sweep e od 1 vs \<lparr>analysis_results = [], files = fs\<rparr>)"
  by (auto simp: run_analysis_def Let_def split: if_splits sum.splits)

lemma run_analysis_velocities:
  "run_analysis sys e vs oda pa fs = Inr (res, fs') \<Longrightarrow> velocity ` set (results res) \<subseteq> set vs"
proof -
  assume "run_analysis sys e vs oda pa fs = Inr (res, fs')"
  then obtain od where
    "results res = analysis_results (sweep e od 1 vs \<lparr>analysis_results = [], files = fs\<rparr>)"
    using run_analysis_results by blast
  then show ?thesis
    using sweep_velocities_subset[of e od 1 vs "\<lparr>analysis_results = [], files = fs\<rparr>"]
    by simp
qed

lemma run_analysis_swept:
  "run_analysis demo_system quiet_env [100, 250] (Some [''out'']) None Map.empty =
     Inr (swept,
          [[''out'', ''velocity_100'', ''results.json''] \<mapsto> Document (results swept ! 0),
           [''out'', ''velocity_250'', ''results.json''] \<mapsto> Document (results swept ! 1)])"
proof -
  have j: "job_name_of 100 = ''SpallJob_v100''" "job_name_of 250 = ''SpallJob_v250''"
    "result_file [''out''] 100 = [''out'', ''velocity_100'', ''results.json'']"
    "result_file [''out''] 250 = [''out'', ''velocity_250'', ''results.json'']"
    by code_simp+
  show ?thesis
    by (simp add: run_analysis_def quiet_env_def run_velocity_def swept_def
        save_velocity_results_def extract_results_def generate_summary_report_def
        py_min_def py_max_def j Let_def)
qed

text \<open>
  C1. Whenever the fracture set of the records (the velocities of the completed records
  with \<open>fracture_occurred\<close>) is not empty, \<open>analyze\<close> reports as critical velocity the
  least velocity of that set; this velocity is the velocity of one of the records and,
  for records that \<open>run_analysis\<close> produced, one of the requested velocities. Whenever
  the fracture set is empty, the critical velocity is absent.
\<close>

theorem critical_velocity_is_least_fracture_velocity:
  "(fracture_set (results res) \<noteq> [] \<longrightarrow>
      get_critical_velocity (analyze res) = Some (Min (set (fracture_set (results res)))) \<and>
      Min (set (fracture_set (results res))) \<in> velocity ` set (results res) \<and>
      (run_analysis sys e vs oda pa fs = Inr (res, fs') \<longrightarrow>
         Min (set (fracture_set (results res))) \<in> set vs)) \<and>
   (fracture_set (results res) = [] \<longrightarrow> get_critical_velocity (analyze res) = None)"
proof (cases "fracture_set (results res) = []")
  case True
  then show ?thesis by (simp add: get_critical_velocity_analyze)
next
  case False
  have "Min (set (fracture_set (results res))) \<in> set (fracture_set (results res))"
    using False by (intro Min_in) simp_all
  then have m: "Min (set (fracture_set (results res))) \<in> velocity ` set (results res)"
    using fracture_set_subset[of "results res"] by auto
  have "run_analysis sys e vs oda pa fs = Inr (res, fs') \<longrightarrow>
          Min (set (fracture_set (results res))) \<in> set vs"
    using m run_analysis_velocities[of sys e vs oda pa fs res fs'] by auto
  then show ?thesis using False m by (simp add: get_critical_velocity_analyze min_of_Min)
qed

theorem critical_velocity_is_least_fracture_velocity_witness:
  "fracture_set (results swept) \<noteq> [] \<and>
   get_critical_velocity (analyze swept) = Some 250 \<and>
   250 \<in> velocity ` set (results swept) \<and>
   (250::real) \<in> set [100, 250] \<and>
   fracture_set (results demo_results) = [250, 300] \<and>
   get_critical_velocity (analyze demo_results) = Some 250 \<and>
   fracture_set [Failed 150 ''mesh generation error''] = [] \<and>
   get_critical_velocity
     (analyze (demo_results\<lparr>results := [Failed 150 ''mesh generation error'']\<rparr>)) = None"
proof -
  have f: "fracture_set (results swept) = [250]" "fracture_set (results demo_results) = [250, 300]"
    "fracture_set [Failed 150 ''mesh generation error''] = []"
    by (simp_all add: swept_def demo_results_def fracture_set_def completed_def)
  show ?thesis
    using critical_velocity_is_least_fracture_velocity[of swept demo_system quiet_env "[100, 250]"
        "Some [''out'']" None Map.empty]
      critical_velocity_is_least_fracture_velocity[of demo_results]
      critical_velocity_is_least_fracture_velocity[of
        "demo_results\<lparr>results := [Failed 150 ''mesh generation error'']\<rparr>"]
      run_analysis_swept
    by (simp add: f)
qed

lemma sweep_no_save_error:
  assumes "\<forall>i r. save_error e i r = None"
  shows "map velocity (analysis_results (sweep e od i vs s)) =
           map velocity (analysis_results s) @ vs"
proof (induction vs arbitrary: i s)
  case Nil
  show ?case by simp
next
  case (Cons v vs)
  have "map velocity (analysis_results (run_velocity e od i v s)) =
          map velocity (analysis_results s) @ [v]"
    using assms by (simp add: run_velocity_results split: option.splits)
  then show ?case using Cons.IH[of "Suc i" "run_velocity e od i v s"] by simp
qed

lemma run_analysis_one_record_per_velocity:
  assumes "run_analysis sys e vs oda pa fs = Inr (res, fs')" and "\<forall>i r. save_error e i r = None"
  shows "map velocity (results res) = vs"
proof -
  obtain od where
    "results res = analysis_results (sweep e od 1 vs \<lparr>analysis_results = [], files = fs\<rparr>)"
    using run_analysis_results[OF assms(1)] by blast
  then show ?thesis
    using sweep_no_save_error[OF assms(2), of od 1 vs "\<lparr>analysis_results = [], files = fs\<rparr>"]
    by simp
qed

text \<open>
  C2 (the sweep yields one record per velocity, in order, failures included). The
  loop appends the completed record before it saves it, inside the same \<open>try\<close>: when
  saving raises, the \<open>except\<close> branch appends a second, failed record for the same
  velocity. Here one requested velocity ends with two records.
\<close>

theorem sweep_save_failure_duplicates_record:
  "run_analysis demo_system failing_save_env [100] (Some [''out'']) None Map.empty =
     Inr (\<lparr>velocities = [100],
           results = [Completed 100 100 0.02 120 False ''SpallJob_v100'',
                      Failed 100 ''No space left on device''],
           output_dir = [''out''], analysis_params = default_params\<rparr>, Map.empty)"
proof -
  have j: "job_name_of 100 = ''SpallJob_v100''" by code_simp
  show ?thesis
    by (simp add: run_analysis_def failing_save_env_def quiet_env_def run_velocity_def
        save_velocity_results_def extract_results_def generate_summary_report_def
        py_min_def py_max_def j Let_def)
qed

text \<open>
  C3, as stated (with no completed record the summary still carries the counts), fails:
  for a single failed record \<open>analyze\<close> returns the dictionary that holds the error
  message alone, and none of the three counts is in it.
\<close>

theorem analyze_failed_only_counterexample:
  "completed [Failed 150 ''mesh generation error''] = [] \<and>
   analyze \<lparr>velocities = [150], results = [Failed 150 ''mesh generation error''],
            output_dir = [''out''], analysis_params = default_params\<rparr>
     = ErrorOnly no_results_message \<and>
   get_total_velocities (ErrorOnly no_results_message) = None \<and>
   get_successful_calculations (ErrorOnly no_results_message) = None \<and>
   get_failed_calculations (ErrorOnly no_results_message) = None"
  by (simp add: completed_def analyze_def)

text \<open>
  C3, amended. With no completed record \<open>analyze\<close> does not fail: it returns the
  dictionary whose only key is \<open>error\<close>; the critical velocity and the three counts are
  absent from it.
\<close>

theorem analyze_without_completed_records:
  "completed (results res) = [] \<Longrightarrow>
     analyze res = ErrorOnly no_results_message \<and>
     get_error (analyze res) = Some no_results_message \<and>
     get_critical_velocity (analyze res) = None \<and>
     get_total_velocities (analyze res) = None \<and>
     get_successful_calculations (analyze res) = None \<and>
     get_failed_calculations (analyze res) = None"
  by (simp add: completed_def analyze_def)

theorem analyze_without_completed_records_witness:
  "completed (results (demo_results\<lparr>results := [Failed 150 ''mesh generation error'']\<rparr>)) = [] \<and>
   analyze (demo_results\<lparr>results := [Failed 150 ''mesh generation error'']\<rparr>)
     = ErrorOnly no_results_message \<and>
   get_total_velocities (analyze (demo_results\<lparr>results := [Failed 150 ''mesh generation error'']\<rparr>))
     = None"
  using analyze_without_completed_records[of
      "demo_results\<lparr>results := [Failed 150 ''mesh generation error'']\<rparr>"]
  by (simp add: completed_def)

text \<open>
  C7, as stated (\<open>total_velocities\<close> is the number of records), fails: the count is taken
  from the list of requested velocities, which the result object holds apart from the
  records. Two requested velocities with one record give 2.
\<close>

theorem total_velocities_counterexample:
  "completed [Completed 100 80 0.02 120 False ''SpallJob_v100''] \<noteq> [] \<and>
   get_total_velocities
     (analyze \<lparr>velocities = [100, 200],
               results = [Completed 100 80 0.02 120 False ''SpallJob_v100''],
               output_dir = [''out''], analysis_params = default_params\<rparr>) = Some 2 \<and>
   int (length [Completed 100 80 0.02 120 False ''SpallJob_v100'']) = 1"
  by (simp add: completed_def analyze_def Let_def)

text \<open>
  C7, amended. With at least one completed record, \<open>total_velocities\<close> is the number of
  requested velocities, \<open>successful_calculations\<close> the number of completed records and
  \<open>failed_calculations\<close> the number of records minus the number of completed ones.
  \<open>total_velocities\<close> is the number of records whenever the two lists have the same
  length, as they do in every result of \<open>run_analysis\<close> in which no save raised.
\<close>

theorem analyze_counts:
  assumes "completed (results res) \<noteq> []"
  shows "get_total_velocities (analyze res) = Some (int (length (velocities res))) \<and>
         get_successful_calculations (analyze res) = Some (int (length (completed (results res)))) \<and>
         get_failed_calculations (analyze res) =
           Some (int (length (results res)) - int (length (completed (results res)))) \<and>
         (length (velocities res) = length (results res) \<longrightarrow>
            get_total_velocities (analyze res) = Some (int (length (results res)))) \<and>
         (run_analysis sys e vs oda pa fs = Inr (res, fs') \<and> (\<forall>i r. save_error e i r = None) \<longrightarrow>
            get_total_velocities (analyze res) = Some (int (length (results res))))"
proof -
  have a: "get_total_velocities (analyze res) = Some (int (length (velocities res)))"
    "get_successful_calculations (analyze res) = Some (int (length (completed (results res))))"
    "get_failed_calculations (analyze res) =
           Some (int (length (results res)) - int (length (completed (results res))))"
    using assms by (simp_all add: analyze_def completed_def Let_def)
  have b: "length (velocities res) = length (results res)"
    if r: "run_analysis sys e vs oda pa fs = Inr (res, fs')" and n: "\<forall>i r. save_error e i r = None"
  proof -
    have "map velocity (results res) = vs"
      using run_analysis_one_record_per_velocity[OF r n] .
    moreover have "velocities res = vs" using run_analysis_results[OF r] by blast
    ultimately show ?thesis by (metis length_map)
  qed
  show ?thesis using a b by simp
qed

theorem analyze_counts_witness:
  "completed (results swept) \<noteq> [] \<and>
   get_total_velocities (analyze swept) = Some 2 \<and>
   get_successful_calculations (analyze swept) = Some 2 \<and>
   get_failed_calculations (analyze swept) = Some 0 \<and>
   length (velocities swept) = length (results swept) \<and>
   (\<forall>i r. save_error quiet_env i r = None) \<and>
   get_total_velocities (analyze swept) = Some (int (length (results swept)))"
proof -
  have c: "completed (results swept) \<noteq> []"
    by (simp add: swept_def completed_def)
  have q: "\<forall>i r. save_error quiet_env i r = None" by (simp add: quiet_env_def)
  have l: "length (velocities swept) = 2" "length (results swept) = 2"
    "length (completed (results swept)) = 2"
    by (simp_all add: swept_def completed_def)
  show ?thesis
    using analyze_counts[OF c, of demo_system quiet_env "[100, 250]" "Some [''out'']" None Map.empty
        "[[''out'', ''velocity_100'', ''results.json''] \<mapsto> Document (results swept ! 0),
          [''out'', ''velocity_250'', ''results.json''] \<mapsto> Document (results swept ! 1)]"]
      run_analysis_swept q c
    by (simp only: l) simp
qed

section \<open>Where the sweep stores its results\<close>



















section \<open>When the field extraction raises\<close>

lemma key_in_dict_iff: "c \<in> fst ` set xs \<longleftrightarrow> map_of xs c \<noteq> None"
  by (simp add: map_of_eq_None_iff)

lemma keys_update: "fst ` set (AList.update k v al) = insert k (fst ` set al)"
proof -
  have "set (map fst (AList.update k v al)) = insert k (set (map fst al))"
    by (auto simp: update_keys)
  then show ?thesis by (simp only: set_map)
qed

lemma component_values_fails_iff:
  "isl (component_values c vs) \<longleftrightarrow> (\<exists>v \<in> set vs. c \<notin> fst ` set (data v))"
  by (induction vs) (auto simp: key_in_dict_iff split: option.splits sum.splits)

lemma extract_components_empty_values:
  "cs \<noteq> [] \<Longrightarrow> field_values fo = [] \<Longrightarrow> extract_components np_mean fo cs acc = Inl IndexError"
  by (cases cs) simp_all

lemma extract_components_fails_iff:
  "isl (extract_components np_mean fo cs acc) \<longleftrightarrow>
     cs \<noteq> [] \<and>
     (field_values fo = [] \<or>
      (\<exists>c \<in> set cs. c \<in> fst ` set (data (hd (field_values fo))) \<and>
         (\<exists>v \<in> set (field_values fo). c \<notin> fst ` set (data v))))"
proof (induction cs arbitrary: acc)
  case Nil
  show ?case by simp
next
  case (Cons c cs)
  show ?case
  proof (cases "field_values fo")
    case Nil
    then show ?thesis by simp
  next
    case (Cons v0 rest)
    show ?thesis
    proof (cases "c \<in> fst ` set (data v0)")
      case False
      then show ?thesis using Cons Cons.IH[of acc] by (cases cs) auto
    next
      case True
      show ?thesis
      proof (cases "component_values c (field_values fo)")
        case (Inl err)
        then have "\<exists>v \<in> set (field_values fo). c \<notin> fst ` set (data v)"
          using component_values_fails_iff[of c "field_values fo"] by simp
        then show ?thesis using Inl True Cons by auto
      next
        case (Inr xs)
        then have ok: "\<not> (\<exists>v \<in> set (field_values fo). c \<notin> fst ` set (data v))"
          using component_values_fails_iff[of c "field_values fo"] by simp
        have "isl (extract_components np_mean fo (c # cs) acc) =
                isl (extract_components np_mean fo cs (AList.update c (make_sample np_mean xs) acc))"
          using Inr True Cons by simp
        then show ?thesis
          using Cons.IH[of "AList.update c (make_sample np_mean xs) acc"] ok Cons by (cases cs) auto
      qed
    qed
  qed
qed

lemma extract_components_keys:
  "extract_components np_mean fo cs acc = Inr cd \<Longrightarrow>
     fst ` set cd =
       fst ` set acc \<union> {c \<in> set cs. c \<in> fst ` set (data (hd (field_values fo)))}"
proof (induction cs arbitrary: acc)
  case Nil
  then show ?case by simp
next
  case (Cons c cs)
  show ?case
  proof (cases "field_values fo")
    case Nil
    then show ?thesis using Cons.prems by simp
  next
    case fv: (Cons v0 rest)
    show ?thesis
    proof (cases "c \<in> fst ` set (data v0)")
      case False
      then have "extract_components np_mean fo cs acc = Inr cd" using Cons.prems fv by simp
      from Cons.IH[OF this] show ?thesis using False fv by auto
    next
      case True
      then obtain xs where xs: "component_values c (field_values fo) = Inr xs"
        and r: "extract_components np_mean fo cs (AList.update c (make_sample np_mean xs) acc) = Inr cd"
        using Cons.prems fv by (auto split: sum.splits)
      from Cons.IH[OF r] show ?thesis using True fv by (simp add: keys_update) blast
    qed
  qed
qed

lemma extract_fields_fails_iff:
  "isl (extract_fields np_mean fr cfgs acc) \<longleftrightarrow>
     (\<exists>(ft, cs) \<in> set cfgs. \<exists>fo. map_of (fieldOutputs fr) ft = Some fo \<and>
        isl (extract_components np_mean fo cs []))"
proof (induction cfgs arbitrary: acc)
  case Nil
  show ?case by simp
next
  case (Cons a cfgs)
  obtain ft cs where a: "a = (ft, cs)" by (cases a)
  show ?case
  proof (cases "map_of (fieldOutputs fr) ft")
    case None
    then show ?thesis using a Cons.IH[of acc] by simp
  next
    case (Some fo)
    show ?thesis
    proof (cases "extract_components np_mean fo cs []")
      case (Inl err)
      then show ?thesis using a Some by auto
    next
      case (Inr cd)
      then show ?thesis
        using a Some Cons.IH[of "AList.update ft (Components cd) acc"] by auto
    qed
  qed
qed

lemma extract_frame_fails_iff:
  "isl (extract_frame np_mean cfg fr) \<longleftrightarrow>
     (\<exists>(ft, cs) \<in> set (field_outputs cfg). \<exists>fo. map_of (fieldOutputs fr) ft = Some fo \<and>
        isl (extract_components np_mean fo cs []))"
proof -
  have "isl (extract_frame np_mean cfg fr) = isl (extract_fields np_mean fr (field_outputs cfg) [])"
    by (cases "extract_fields np_mean fr (field_outputs cfg) []") (simp_all add: extract_frame_def)
  then show ?thesis by (simp only: extract_fields_fails_iff)
qed

lemma extract_frames_fails_iff:
  "isl (extract_frames np_mean cfg frs acc) \<longleftrightarrow> (\<exists>fr \<in> set frs. isl (extract_frame np_mean cfg fr))"
proof (induction frs arbitrary: acc)
  case Nil
  show ?case by simp
next
  case (Cons fr frs)
  show ?case
  proof (cases "extract_frame np_mean cfg fr")
    case (Inl err)
    then show ?thesis by simp
  next
    case (Inr fd)
    then show ?thesis using Cons.IH[of "AList.update (frameValue fr) fd acc"] by simp
  qed
qed

lemma extract_field_steps_fails_iff:
  "isl (extract_field_steps np_mean cfg db names acc) \<longleftrightarrow>
     (\<exists>n \<in> set names. case map_of (steps db) n of
        None \<Rightarrow> True
      | Some st \<Rightarrow> \<exists>fr \<in> set (frames st). isl (extract_frame np_mean cfg fr))"
proof (induction names arbitrary: acc)
  case Nil
  show ?case by simp
next
  case (Cons n names)
  show ?case
  proof (cases "map_of (steps db) n")
    case None
    then show ?thesis by simp
  next
    case (Some st)
    show ?thesis
    proof (cases "extract_frames np_mean cfg (frames st) []")
      case (Inl err)
      then have "\<exists>fr \<in> set (frames st). isl (extract_frame np_mean cfg fr)"
        using extract_frames_fails_iff[of np_mean cfg "frames st" "[]"] by simp
      then show ?thesis using Inl Some by simp
    next
      case (Inr sd)
      then have "\<not> (\<exists>fr \<in> set (frames st). isl (extract_frame np_mean cfg fr))"
        using extract_frames_fails_iff[of np_mean cfg "frames st" "[]"] by simp
      then show ?thesis using Inr Some Cons.IH[of "AList.update n sd acc"] by simp
    qed
  qed
qed

lemma extract_field_data_fails_iff:
  "isl (fst (extract_field_data np_mean db self)) \<longleftrightarrow>
     (\<exists>n \<in> fst ` set (steps db). \<exists>st. map_of (steps db) n = Some st \<and>
        (\<exists>fr \<in> set (frames st). isl (extract_frame np_mean (system_config self) fr)))"
proof -
  have k: "(case map_of (steps db) n of None \<Rightarrow> True | Some st \<Rightarrow> P st) =
             (\<exists>st. map_of (steps db) n = Some st \<and> P st)"
    if "n \<in> fst ` set (steps db)" for n P
    using that by (auto simp: key_in_dict_iff split: option.splits)
  have "isl (fst (extract_field_data np_mean db self)) \<longleftrightarrow>
          (\<exists>n \<in> fst ` set (steps db). case map_of (steps db) n of
             None \<Rightarrow> True
           | Some st \<Rightarrow> \<exists>fr \<in> set (frames st). isl (extract_frame np_mean (system_config self) fr))"
    by (simp only: extract_field_data_def fst_conv extract_field_steps_fails_iff set_map)
  also have "\<dots> \<longleftrightarrow>
     (\<exists>n \<in> fst ` set (steps db). \<exists>st. map_of (steps db) n = Some st \<and>
        (\<exists>fr \<in> set (frames st). isl (extract_frame np_mean (system_config self) fr)))"
    by (rule bex_cong[OF refl]) (rule k)
  finally show ?thesis .
qed

lemma extract_frame_fails_iff_values: "isl (extract_frame np_mean cfg fr) \<longleftrightarrow>
      (\<exists>(ft', cs') \<in> set (field_outputs cfg). \<exists>fo'.
          map_of (fieldOutputs fr) ft' = Some fo' \<and> cs' \<noteq> [] \<and>
          (field_values fo' = [] \<or>
           (\<exists>c \<in> set cs'. c \<in> fst ` set (data (hd (field_values fo'))) \<and>
              (\<exists>v \<in> set (field_values fo'). c \<notin> fst ` set (data v)))))"
  by (simp only: extract_frame_fails_iff extract_components_fails_iff)

lemma extract_frame_fails_on_empty_values: "isl (extract_frame np_mean cfg fr)"
    if "(ft, cs) \<in> set (field_outputs cfg)" "cs \<noteq> []"
      "map_of (fieldOutputs fr) ft = Some fo" "field_values fo = []"
  unfolding extract_frame_fails_iff_values using that by (intro bexI[of _ "(ft, cs)"]) simp_all

lemma extract_frame_succeeds_on_uniform_values: "\<not> isl (extract_frame np_mean cfg fr)"
    if "\<forall>(ft', cs') \<in> set (field_outputs cfg). \<forall>fo'.
        map_of (fieldOutputs fr) ft' = Some fo' \<longrightarrow>
          field_values fo' \<noteq> [] \<and>
          (\<forall>v \<in> set (field_values fo').
             fst ` set (data v) = fst ` set (data (hd (field_values fo'))))"
  proof
    assume "isl (extract_frame np_mean cfg fr)"
    then have "\<exists>p \<in> set (field_outputs cfg). \<exists>fo'.
          map_of (fieldOutputs fr) (fst p) = Some fo' \<and> snd p \<noteq> [] \<and>
          (field_values fo' = [] \<or>
           (\<exists>c \<in> set (snd p). c \<in> fst ` set (data (hd (field_values fo'))) \<and>
              (\<exists>v \<in> set (field_values fo'). c \<notin> fst ` set (data v))))"
      unfolding extract_frame_fails_iff_values case_prod_unfold .
    then obtain p fo' where m: "p \<in> set (field_outputs cfg)"
      "map_of (fieldOutputs fr) (fst p) = Some fo'"
      and bad: "field_values fo' = [] \<or>
           (\<exists>c \<in> set (snd p). c \<in> fst ` set (data (hd (field_values fo'))) \<and>
              (\<exists>v \<in> set (field_values fo'). c \<notin> fst ` set (data v)))"
      by blast
    have g: "field_values fo' \<noteq> [] \<and>
          (\<forall>v \<in> set (field_values fo').
             fst ` set (data v) = fst ` set (data (hd (field_values fo'))))"
      using spec[OF bspec[OF that m(1), unfolded case_prod_unfold], of fo'] m(2) by (rule mp)
    then have ne: "field_values fo' \<noteq> []" by (rule conjunct1)
    from bad ne obtain c v where cv: "c \<in> fst ` set (data (hd (field_values fo')))"
      "v \<in> set (field_values fo')" "c \<notin> fst ` set (data v)"
      by blast
    have "fst ` set (data v) = fst ` set (data (hd (field_values fo')))"
      using conjunct2[OF g] cv(2) by (rule bspec)
    then show False using cv(1,3) by simp
  qed

text \<open>
  C10, as stated (a requested field type with an empty values sequence always makes the
  extraction raise an out-of-bounds error, and only fields with at least one value and
  the same component keys in all values are safe), fails in three ways. A field type
  requested with an empty component list is never tested: the frame is extracted
  without error although its stress field has no values. When an earlier field of the
  frame raises first, the error is the \<open>KeyError\<close> of that field, not \<open>IndexError\<close>. And
  values with different component keys are extracted without error as long as every
  requested component of the first value is in all of them.
\<close>

theorem field_without_requested_components_counterexample:
  "map_of (fieldOutputs empty_values_frame) ''stress'' = Some \<lparr>field_values = []\<rparr> \<and>
   extract_frame arithmetic_mean \<lparr>field_outputs = [(''stress'', [])], history_outputs = []\<rparr> empty_values_frame
     = Inr [(''stress'', Components []), (''time'', Time 0)] \<and>
   map_of (fieldOutputs mixed_frame) ''stress'' = Some \<lparr>field_values = []\<rparr> \<and>
   extract_frame arithmetic_mean \<lparr>field_outputs = [(''strain'', [''E11'']), (''stress'', [''S11''])],
                  history_outputs = []\<rparr> mixed_frame
     = Inl (KeyError ''E11'') \<and>
   extract_frame arithmetic_mean \<lparr>field_outputs = [(''stress'', [''S11''])], history_outputs = []\<rparr> growing_frame
     = Inr [(''stress'',
             Components [(''S11'', \<lparr>sample_values = [1, 2], sample_max = 2,
                                     sample_min = 1, sample_mean = 3 / 2\<rparr>)]),
            (''time'', Time 0)]"
  by (simp add: extract_frame_def empty_values_frame_def mixed_frame_def growing_frame_def
      make_sample_def reduceSamples_def max_of_def min_of_def arithmetic_mean_def)

text \<open>
  C10, amended. Whether a requested component is present is decided on the first
  element of the values sequence alone: the components stored for a field are the
  requested ones that the first value carries. For a field type requested with at
  least one component and with an empty values sequence, extracting the field raises
  \<open>IndexError\<close> and the extraction of the frame fails. The extraction of a frame fails
  exactly when some present field type, requested with at least one component, has no
  values or has a requested component that the first value carries and some value
  lacks; so it succeeds whenever every present requested field has at least one value
  and all its values carry the same component keys. The extraction of the database
  fails exactly when the extraction of one of its frames does.
\<close>

theorem field_extraction_fails_exactly_when:
  "(extract_components np_mean fo cs acc = Inr cd \<longrightarrow>
      fst ` set cd =
        fst ` set acc \<union> {c \<in> set cs. c \<in> fst ` set (data (hd (field_values fo)))}) \<and>
   (cs \<noteq> [] \<and> field_values fo = [] \<longrightarrow> extract_components np_mean fo cs acc = Inl IndexError) \<and>
   ((ft, cs) \<in> set (field_outputs cfg) \<and> cs \<noteq> [] \<and>
    map_of (fieldOutputs fr) ft = Some fo \<and> field_values fo = [] \<longrightarrow>
      isl (extract_frame np_mean cfg fr)) \<and>
   (isl (extract_frame np_mean cfg fr) \<longleftrightarrow>
      (\<exists>(ft', cs') \<in> set (field_outputs cfg). \<exists>fo'.
          map_of (fieldOutputs fr) ft' = Some fo' \<and> cs' \<noteq> [] \<and>
          (field_values fo' = [] \<or>
           (\<exists>c \<in> set cs'. c \<in> fst ` set (data (hd (field_values fo'))) \<and>
              (\<exists>v \<in> set (field_values fo'). c \<notin> fst ` set (data v)))))) \<and>
   ((\<forall>(ft', cs') \<in> set (field_outputs cfg). \<forall>fo'.
        map_of (fieldOutputs fr) ft' = Some fo' \<longrightarrow>
          field_values fo' \<noteq> [] \<and>
          (\<forall>v \<in> set (field_values fo').
             fst ` set (data v) = fst ` set (data (hd (field_values fo'))))) \<longrightarrow>
      \<not> isl (extract_frame np_mean cfg fr)) \<and>
   (isl (fst (extract_field_data np_mean db self)) \<longleftrightarrow>
      (\<exists>n \<in> fst ` set (steps db). \<exists>st. map_of (steps db) n = Some st \<and>
         (\<exists>fr' \<in> set (frames st). isl (extract_frame np_mean (system_config self) fr'))))"
proof -
  have a: "extract_components np_mean fo cs acc = Inr cd \<longrightarrow>
      fst ` set cd =
        fst ` set acc \<union> {c \<in> set cs. c \<in> fst ` set (data (hd (field_values fo)))}"
    using extract_components_keys[of np_mean fo cs acc cd] by (rule impI)
  have b: "cs \<noteq> [] \<and> field_values fo = [] \<longrightarrow> extract_components np_mean fo cs acc = Inl IndexError"
    using extract_components_empty_values[where cs=cs and fo=fo and acc=acc and np_mean=np_mean] by simp
  have c': "(ft, cs) \<in> set (field_outputs cfg) \<and> cs \<noteq> [] \<and>
    map_of (fieldOutputs fr) ft = Some fo \<and> field_values fo = [] \<longrightarrow>
      isl (extract_frame np_mean cfg fr)"
    using extract_frame_fails_on_empty_values[where ft=ft and cs=cs and cfg=cfg and fr=fr and fo=fo and np_mean=np_mean] by simp
  have e': "(\<forall>(ft', cs') \<in> set (field_outputs cfg). \<forall>fo'.
        map_of (fieldOutputs fr) ft' = Some fo' \<longrightarrow>
          field_values fo' \<noteq> [] \<and>
          (\<forall>v \<in> set (field_values fo').
             fst ` set (data v) = fst ` set (data (hd (field_values fo'))))) \<longrightarrow>
      \<not> isl (extract_frame np_mean cfg fr)"
    using extract_frame_succeeds_on_uniform_values[where cfg=cfg and fr=fr and np_mean=np_mean] by (rule impI)
  show ?thesis
    by (intro conjI a b c' extract_frame_fails_iff_values e' extract_field_data_fails_iff)
qed

theorem field_extraction_fails_exactly_when_witness:
  "extract_components arithmetic_mean \<lparr>field_values = [\<lparr>data = [(''S11'', 1)]\<rparr>,
                                        \<lparr>data = [(''S11'', 2), (''S22'', 3)]\<rparr>]\<rparr>
     [''S11'', ''S22''] []
     = Inr [(''S11'', make_sample arithmetic_mean [1, 2])] \<and>
   fst ` set [(''S11'', make_sample arithmetic_mean [1, 2])] = {''S11''} \<and>
   extract_components arithmetic_mean \<lparr>field_values = []\<rparr> [''S11''] [] = Inl IndexError \<and>
   (''stress'', [''S11'']) \<in> set (field_outputs (system_config stress_system)) \<and>
   map_of (fieldOutputs empty_values_frame) ''stress'' = Some \<lparr>field_values = []\<rparr> \<and>
   isl (extract_frame arithmetic_mean (system_config stress_system) empty_values_frame) \<and>
   \<not> isl (extract_frame arithmetic_mean (system_config stress_system) compressed_frame) \<and>
   isl (fst (extract_field_data arithmetic_mean empty_values_db stress_system))"
proof -
  note t = field_extraction_fails_exactly_when
  let ?fo = "\<lparr>field_values = [\<lparr>data = [(''S11'', 1)]\<rparr>, \<lparr>data = [(''S11'', 2), (''S22'', 3)]\<rparr>]\<rparr>"
  let ?cfg = "system_config stress_system"
  have x: "extract_components arithmetic_mean ?fo [''S11'', ''S22''] [] = Inr [(''S11'', make_sample arithmetic_mean [1, 2])]"
    by simp
  have k: "fst ` set [(''S11'', make_sample arithmetic_mean [1, 2])] = {''S11''}"
    using t[where np_mean=arithmetic_mean and fo="?fo" and cs="[''S11'', ''S22'']" and acc="[]"
        and cd="[(''S11'', make_sample arithmetic_mean [1, 2])]", THEN conjunct1] x
    by simp
  have i: "extract_components arithmetic_mean \<lparr>field_values = []\<rparr> [''S11''] [] = Inl IndexError"
    using t[where np_mean=arithmetic_mean and fo="\<lparr>field_values = []\<rparr>" and cs="[''S11'']" and acc="[]",
        THEN conjunct2, THEN conjunct1]
    by simp
  have m: "(''stress'', [''S11'']) \<in> set (field_outputs ?cfg)"
    "map_of (fieldOutputs empty_values_frame) ''stress'' = Some \<lparr>field_values = []\<rparr>"
    by (simp_all add: stress_system_def empty_values_frame_def)
  have f: "isl (extract_frame arithmetic_mean ?cfg empty_values_frame)"
    using t[where np_mean=arithmetic_mean and ft="''stress''" and cs="[''S11'']" and cfg="?cfg" and fr=empty_values_frame
        and fo="\<lparr>field_values = []\<rparr>", THEN conjunct2, THEN conjunct2, THEN conjunct1] m
    by simp
  have g: "\<not> isl (extract_frame arithmetic_mean ?cfg compressed_frame)"
    using t[where np_mean=arithmetic_mean and cfg="?cfg" and fr=compressed_frame,
        THEN conjunct2, THEN conjunct2, THEN conjunct2, THEN conjunct2, THEN conjunct1]
    by (simp add: stress_system_def compressed_frame_def)
  have h: "isl (fst (extract_field_data arithmetic_mean empty_values_db stress_system))"
    using t[where np_mean=arithmetic_mean and db=empty_values_db and self=stress_system,
        THEN conjunct2, THEN conjunct2, THEN conjunct2, THEN conjunct2, THEN conjunct2] f
    by (simp add: empty_values_db_def)
  show ?thesis using x k i m f g h by simp
qed

section \<open>Properties of the data reduction\<close>













section \<open>Two defects of the post-processing\<close>

text \<open>
  C4 (the overall maximum stress is the greatest \<open>max\<close> of all stress components, also
  when all of them are negative). The running maximum of \<open>get_max_stress\<close> starts at 0
  and is only ever raised: for a database whose stress component \<open>S11\<close> is -5 and -7,
  the extraction stores the maximum -5 and \<open>get_max_stress\<close> returns 0.
\<close>

theorem negative_stress_reported_as_zero:
  "fst (extract_field_data np_mean compressed_db stress_system) =
     Inr [(''Step-1'',
           [(0, [(''stress'',
                  Components [(''S11'', \<lparr>sample_values = [- 5, - 7], sample_max = - 5,
                                          sample_min = - 7,
                                          sample_mean = np_mean [- 5, - 7]\<rparr>)]),
                 (''time'', Time 0)])])] \<and>
   field_maxima ''stress''
     [(''Step-1'',
       [(0, [(''stress'',
              Components [(''S11'', \<lparr>sample_values = [- 5, - 7], sample_max = - 5,
                                      sample_min = - 7,
                                      sample_mean = np_mean [- 5, - 7]\<rparr>)]),
             (''time'', Time 0)])])] = [- 5] \<and>
   get_max_stress
     \<lparr>odb_file = ''job.odb'',
      field_data =
        [(''Step-1'',
          [(0, [(''stress'',
                 Components [(''S11'', \<lparr>sample_values = [- 5, - 7], sample_max = - 5,
                                         sample_min = - 7,
                                         sample_mean = np_mean [- 5, - 7]\<rparr>)]),
                (''time'', Time 0)])])],
      history_data = [], processing_time = 0\<rparr> = Inr 0"
  by (simp add: extract_field_data_def compressed_db_def compressed_frame_def stress_system_def
      extract_frame_def make_sample_def reduceSamples_def max_of_def min_of_def
      field_maxima_def get_max_stress_def py_max2_def)

text \<open>
  C6 (a requested component that the frame's raw data lacks is left out, and its
  absence is never an error). The presence test reads \<open>field_output.values[0]\<close>: for a
  stress field that has no values, and so carries no component at all, the extraction
  of the requested component \<open>S11\<close> raises \<open>IndexError\<close>.
\<close>

theorem empty_values_raise_IndexError:
  "fst (extract_field_data np_mean empty_values_db stress_system) = Inl IndexError"
  by (simp add: extract_field_data_def empty_values_db_def empty_values_frame_def
      stress_system_def extract_frame_def)

end
